theory Spec2Isabelle
  imports Main
begin

section \<open>Boost.Signals: connection.hpp\<close>

text \<open>
  A shallow embedding of \<^verbatim>\<open>include/boost/signals/connection.hpp\<close>.

  A \<^verbatim>\<open>void*\<close> is modelled by the address it holds, a natural number, and a pointer to
  function by the address of the function. Comparing two pointers compares the addresses.
  Calling through a pointer to function is an effect: it is recorded as a \<open>Call\<close> with
  the function's address and the two arguments, appended to the list of calls made so far.
\<close>

type_synonym addr = nat
type_synonym fnptr = nat

datatype call = Call fnptr addr addr

subsection \<open>\<^verbatim>\<open>detail::bound_object\<close>\<close>

record bound_object =
  obj :: addr
  data :: addr
  disconnect :: fnptr

definition bound_object_eq :: "bound_object \<Rightarrow> bound_object \<Rightarrow> bool" where
  "bound_object_eq this other = (obj this = obj other \<and> data this = data other)"

definition bound_object_less :: "bound_object \<Rightarrow> bound_object \<Rightarrow> bool" where
  "bound_object_less this other = (obj this < obj other)"

definition bound_object_neq :: "bound_object \<Rightarrow> bound_object \<Rightarrow> bool" where
  "bound_object_neq this other = (\<not> bound_object_eq this other)"

definition bound_object_greater :: "bound_object \<Rightarrow> bound_object \<Rightarrow> bool" where
  "bound_object_greater this other = (\<not> bound_object_less this other)"

subsection \<open>\<^verbatim>\<open>detail::basic_connection\<close>\<close>

text \<open>
  Isabelle has no names that end in an underscore, so the members \<^verbatim>\<open>blocked_\<close>,
  \<^verbatim>\<open>slot_\<close> and \<^verbatim>\<open>identity_\<close> of the source carry the suffix \<open>_m\<close> here.
\<close>

record basic_connection =
  signal :: addr
  signal_data :: addr
  signal_disconnect :: fnptr
  blocked_m :: bool
  bound_objects :: "bound_object list"

subsection \<open>\<^verbatim>\<open>connection\<close>\<close>

text \<open>
  The member \<^verbatim>\<open>slot_\<close> is a \<^verbatim>\<open>weak_ptr\<close>: it is empty (\<open>None\<close>) or it names a shared body
  (\<open>Some r\<close>), which may have been destroyed since. It never owns the body. The member
  \<^verbatim>\<open>identity_\<close> is a raw pointer that is only ever compared.

  The default constructor stores \<^verbatim>\<open>this\<close> in \<^verbatim>\<open>identity_\<close>; the address of the object under
  construction is therefore an argument of the model.
\<close>

type_synonym body_ref = nat

record connection =
  slot_m :: "body_ref option"
  identity_m :: addr

definition connection_default :: "addr \<Rightarrow> connection" where
  "connection_default this = \<lparr>slot_m = None, identity_m = this\<rparr>"

definition connection_copy :: "connection \<Rightarrow> connection" where
  "connection_copy other = \<lparr>slot_m = slot_m other, identity_m = identity_m other\<rparr>"

definition connection_eq :: "connection \<Rightarrow> connection \<Rightarrow> bool" where
  "connection_eq this other = (identity_m this = identity_m other)"

definition connection_less :: "connection \<Rightarrow> connection \<Rightarrow> bool" where
  "connection_less this other = (identity_m this < identity_m other)"

definition connection_assign :: "connection \<Rightarrow> connection \<Rightarrow> connection" where
  "connection_assign this other =
     this\<lparr>slot_m := slot_m other, identity_m := identity_m other\<rparr>"

text \<open>\<^verbatim>\<open>a.swap(b)\<close> changes both objects: the model returns the new \<open>a\<close> and the new \<open>b\<close>.\<close>

definition connection_swap :: "connection \<Rightarrow> connection \<Rightarrow> connection \<times> connection" where
  "connection_swap this other =
     (this\<lparr>slot_m := slot_m other, identity_m := identity_m other\<rparr>,
      other\<lparr>slot_m := slot_m this, identity_m := identity_m this\<rparr>)"

subsection \<open>\<^verbatim>\<open>detail::connection_slot_pair\<close>\<close>

text \<open>The member \<^verbatim>\<open>second\<close> is a \<^verbatim>\<open>boost::any\<close>; its content is a type parameter.\<close>

record 'slot connection_slot_pair =
  first :: connection
  second :: 'slot

definition connection_slot_pair_eq ::
  "'slot connection_slot_pair \<Rightarrow> 'slot connection_slot_pair \<Rightarrow> bool" where
  "connection_slot_pair_eq this other = False"

definition connection_slot_pair_less ::
  "'slot connection_slot_pair \<Rightarrow> 'slot connection_slot_pair \<Rightarrow> bool" where
  "connection_slot_pair_less this other = False"

subsection \<open>\<^verbatim>\<open>detail::is_disconnected\<close>, \<^verbatim>\<open>detail::is_callable\<close>\<close>

text \<open>
  The function objects call \<^verbatim>\<open>connection::connected\<close> and \<^verbatim>\<open>connection::blocked\<close>, which
  the header declares and does not define. Both are defined below, from the specification.
  They are \<^verbatim>\<open>const\<close> member functions that read the shared state, so the state is an
  argument of the model and no state is returned.
\<close>

subsubsection \<open>The shared state\<close>

text \<open>
  The bodies that are alive, by the reference a \<^verbatim>\<open>weak_ptr\<close> holds to them, and the calls made
  through pointers to function so far, oldest first.
\<close>

record sig_state =
  bodies :: "body_ref \<rightharpoonup> basic_connection"
  calls :: "call list"

text \<open>\<^verbatim>\<open>weak_ptr::lock\<close>: the body a connection refers to, when it has one that is still alive.\<close>

definition lock :: "connection \<Rightarrow> sig_state \<Rightarrow> basic_connection option" where
  "lock c s = (case slot_m c of None \<Rightarrow> None | Some r \<Rightarrow> bodies s r)"

subsubsection \<open>The member functions the header only declares\<close>

text \<open>
  Modelled from the spec: \<^verbatim>\<open>connection::connected\<close>, whose definition is not in the header.
  Section 4.1: true iff the body still exists (the weak reference resolves). Section 4.2:
  returns false if the body is gone.
\<close>

definition connection_connected :: "connection \<Rightarrow> sig_state \<Rightarrow> bool" where
  "connection_connected c s = (case lock c s of None \<Rightarrow> False | Some b \<Rightarrow> True)"

text \<open>
  Modelled from the spec: \<^verbatim>\<open>connection::blocked\<close>, whose definition is not in the header.
  Section 4.2: delegates to the body; returns false (not blocked) if the body is gone.
\<close>

definition connection_blocked :: "connection \<Rightarrow> sig_state \<Rightarrow> bool" where
  "connection_blocked c s = (case lock c s of None \<Rightarrow> False | Some b \<Rightarrow> blocked_m b)"

text \<open>
  Modelled from the spec: \<^verbatim>\<open>connection::block\<close>, whose definition is not in the header.
  Sections 4.1 and 4.2: a pure state toggle on the body; a silent no-op if the body no
  longer exists.
\<close>

definition connection_block :: "connection \<Rightarrow> bool \<Rightarrow> sig_state \<Rightarrow> sig_state" where
  "connection_block c should_block s =
     (case slot_m c of
        None \<Rightarrow> s
      | Some r \<Rightarrow>
          (case bodies s r of
             None \<Rightarrow> s
           | Some b \<Rightarrow> s\<lparr>bodies := (bodies s)(r \<mapsto> b\<lparr>blocked_m := should_block\<rparr>)\<rparr>))"

text \<open>
  Modelled from the spec: \<^verbatim>\<open>connection::unblock\<close>, whose definition is not in the header.
  Sections 4.1 and 4.2: lifts the block; a no-op if the body is gone.
\<close>

definition connection_unblock :: "connection \<Rightarrow> sig_state \<Rightarrow> sig_state" where
  "connection_unblock c s = connection_block c False s"

text \<open>
  Modelled from the spec: the calls of the body's \<^verbatim>\<open>disconnect()\<close>, section 4.1: it invokes
  \<^verbatim>\<open>signal_disconnect(signal, signal_data)\<close>, then, for every entry of \<^verbatim>\<open>bound_objects\<close>, its
  \<^verbatim>\<open>disconnect(object, data)\<close>.
\<close>

definition bound_object_call :: "bound_object \<Rightarrow> call" where
  "bound_object_call b = Call (disconnect b) (obj b) (data b)"

definition disconnect_calls :: "basic_connection \<Rightarrow> call list" where
  "disconnect_calls b =
     Call (signal_disconnect b) (signal b) (signal_data b) # map bound_object_call (bound_objects b)"

text \<open>
  Modelled from the spec: \<^verbatim>\<open>connection::disconnect\<close>, whose definition is not in the header.
  Section 4.2: delegates to the body's \<^verbatim>\<open>disconnect()\<close>; a no-op if the body is already gone.
  Section 3: the connection becomes permanently not connected once the body is disconnected,
  and \<^verbatim>\<open>connected()\<close> is true iff the body still exists: the signal drops the body when it is
  asked to disconnect the slot. The callbacks themselves belong to the signal and to the
  tracked objects; the model records that they are called and does not run them.
\<close>

definition connection_disconnect :: "connection \<Rightarrow> sig_state \<Rightarrow> sig_state" where
  "connection_disconnect c s =
     (case slot_m c of
        None \<Rightarrow> s
      | Some r \<Rightarrow>
          (case bodies s r of
             None \<Rightarrow> s
           | Some b \<Rightarrow> \<lparr>bodies = (bodies s)(r := None), calls = calls s @ disconnect_calls b\<rparr>))"

subsubsection \<open>The function objects\<close>

definition is_disconnected :: "'slot connection_slot_pair \<Rightarrow> sig_state \<Rightarrow> bool" where
  "is_disconnected c s = (\<not> connection_connected (first c) s)"

definition is_callable :: "'slot connection_slot_pair \<Rightarrow> sig_state \<Rightarrow> bool" where
  "is_callable c s = (connection_connected (first c) s \<and> \<not> connection_blocked (first c) s)"

subsection \<open>\<^verbatim>\<open>detail::auto_disconnect_bound_object\<close>\<close>

text \<open>
  The destructor calls through the pointer \<^verbatim>\<open>binding.disconnect\<close>, so every member function
  takes the calls made so far and returns them with its own.
\<close>

record auto_disconnect_bound_object =
  binding :: bound_object
  auto_disconnect :: bool

definition auto_disconnect_bound_object_ctor ::
  "bound_object \<Rightarrow> call list \<Rightarrow> auto_disconnect_bound_object \<times> call list" where
  "auto_disconnect_bound_object_ctor b cs = (\<lparr>binding = b, auto_disconnect = True\<rparr>, cs)"

definition auto_disconnect_bound_object_dtor ::
  "auto_disconnect_bound_object \<Rightarrow> call list \<Rightarrow> call list" where
  "auto_disconnect_bound_object_dtor this cs =
     (if auto_disconnect this
      then cs @ [Call (disconnect (binding this)) (obj (binding this)) (data (binding this))]
      else cs)"

definition release ::
  "auto_disconnect_bound_object \<Rightarrow> call list \<Rightarrow> auto_disconnect_bound_object \<times> call list" where
  "release this cs = (this\<lparr>auto_disconnect := False\<rparr>, cs)"

subsection \<open>Histories\<close>

text \<open>
  The handles that are copies of a connection \<open>c0\<close>: \<open>c0\<close> itself, a copy construction from
  such a handle, and any connection that such a handle has been assigned to.
\<close>

inductive copy_of :: "connection \<Rightarrow> connection \<Rightarrow> bool" for c0 :: connection where
  copy_of_origin: "copy_of c0 c0"
| copy_of_copy: "copy_of c0 c \<Longrightarrow> copy_of c0 (connection_copy c)"
| copy_of_assign: "copy_of c0 c \<Longrightarrow> copy_of c0 (connection_assign this c)"

text \<open>
  The operations of a handle that reach the shared state, and a run of them, each through
  a handle of its own.
\<close>

datatype handle_op = Block bool | Unblock | Disconnect

fun apply_op :: "connection \<times> handle_op \<Rightarrow> sig_state \<Rightarrow> sig_state" where
  "apply_op (c, Block should_block) s = connection_block c should_block s"
| "apply_op (c, Unblock) s = connection_unblock c s"
| "apply_op (c, Disconnect) s = connection_disconnect c s"

fun run_ops :: "(connection \<times> handle_op) list \<Rightarrow> sig_state \<Rightarrow> sig_state" where
  "run_ops [] s = s"
| "run_ops (x # xs) s = run_ops xs (apply_op x s)"

text \<open>
  The life of a guard in a scope: it is constructed from a bound object, \<^verbatim>\<open>release()\<close> is
  called \<open>n\<close> times, and it is destroyed at the end of the scope. The result is the list of
  calls made when the scope is left.
\<close>

fun release_times ::
  "nat \<Rightarrow> auto_disconnect_bound_object \<Rightarrow> call list \<Rightarrow> auto_disconnect_bound_object \<times> call list"
  where
  "release_times 0 g cs = (g, cs)"
| "release_times (Suc n) g cs = (case release g cs of (g', cs') \<Rightarrow> release_times n g' cs')"

definition guard_scope :: "bound_object \<Rightarrow> nat \<Rightarrow> call list \<Rightarrow> call list" where
  "guard_scope b n cs =
     (case auto_disconnect_bound_object_ctor b cs of
        (g, cs') \<Rightarrow>
          (case release_times n g cs' of
             (g', cs'') \<Rightarrow> auto_disconnect_bound_object_dtor g' cs''))"

section \<open>Properties\<close>

subsection \<open>Comparing bound objects\<close>

text \<open>
  Claim C8. Equality of bound objects looks at the pair (object, data) only: two bound objects
  are equal exactly when their object pointers are equal and their data pointers are equal,
  whatever their disconnect callbacks are, and \<^verbatim>\<open>a != b\<close> is the negation of \<^verbatim>\<open>a == b\<close>.
\<close>

theorem bound_object_equality:
  "bound_object_eq a b = (obj a = obj b \<and> data a = data b)
   \<and> bound_object_eq (a\<lparr>disconnect := f\<rparr>) (b\<lparr>disconnect := g\<rparr>) = bound_object_eq a b
   \<and> bound_object_neq a b = (\<not> bound_object_eq a b)"
  by (simp add: bound_object_eq_def bound_object_neq_def)

theorem bound_object_equality_witness:
  "bound_object_eq \<lparr>obj = 4, data = 8, disconnect = 1\<rparr> \<lparr>obj = 4, data = 8, disconnect = 2\<rparr>
   \<and> bound_object_neq \<lparr>obj = 4, data = 8, disconnect = 1\<rparr> \<lparr>obj = 4, data = 9, disconnect = 1\<rparr>"
  using bound_object_equality
    [of "\<lparr>obj = 4, data = 8, disconnect = 1\<rparr>" "\<lparr>obj = 4, data = 8, disconnect = 2\<rparr>"]
    bound_object_equality
    [of "\<lparr>obj = 4, data = 8, disconnect = 1\<rparr>" "\<lparr>obj = 4, data = 9, disconnect = 1\<rparr>"]
  by simp

text \<open>
  Claim C5. The claim reads \<^verbatim>\<open>a > b\<close> as \<^verbatim>\<open>b < a\<close>, so that two bound objects with the same
  object pointer are ordered neither way. The source's \<^verbatim>\<open>operator>\<close> returns
  \<^verbatim>\<open>!(*this < other)\<close> instead, which is \<open>\<ge>\<close> on the object pointers: at two bound objects
  with the same object pointer, \<^verbatim>\<open>a > b\<close> is true although \<^verbatim>\<open>b < a\<close> is false, and a bound
  object is greater than itself.
\<close>

theorem bound_object_greater_at_equal_objects:
  "bound_object_greater \<lparr>obj = 4, data = 8, disconnect = 1\<rparr> \<lparr>obj = 4, data = 9, disconnect = 1\<rparr>
   \<and> \<not> bound_object_less \<lparr>obj = 4, data = 9, disconnect = 1\<rparr> \<lparr>obj = 4, data = 8, disconnect = 1\<rparr>
   \<and> \<not> bound_object_less \<lparr>obj = 4, data = 8, disconnect = 1\<rparr> \<lparr>obj = 4, data = 9, disconnect = 1\<rparr>
   \<and> bound_object_greater \<lparr>obj = 4, data = 8, disconnect = 1\<rparr> \<lparr>obj = 4, data = 8, disconnect = 1\<rparr>"
  by (simp add: bound_object_greater_def bound_object_less_def)

subsection \<open>Comparing connection-slot pairs\<close>

text \<open>
  Claim C10. The comparison operators of a connection-slot pair are dummies: \<^verbatim>\<open>p == q\<close> and
  \<^verbatim>\<open>p < q\<close> are false for all pairs, also when \<open>p\<close> and \<open>q\<close> are the same pair.
\<close>

theorem connection_slot_pair_dummies:
  "\<not> connection_slot_pair_eq p q \<and> \<not> connection_slot_pair_less p q
   \<and> \<not> connection_slot_pair_eq p p \<and> \<not> connection_slot_pair_less p p"
  by (simp add: connection_slot_pair_eq_def connection_slot_pair_less_def)

subsection \<open>Copies, comparison and swap of connections\<close>

lemma copy_of_same: "copy_of c0 c \<Longrightarrow> c = c0"
  by (induction rule: copy_of.induct) (simp_all add: connection_copy_def connection_assign_def)

text \<open>
  Claim C2. Two connections that are copies of the same connection compare equal. Equality
  and ordering compare the identity tokens and nothing else: they take no state, so they
  cannot look at the body and their result is the same before and after a disconnection or
  the destruction of the body, and it does not depend on the \<^verbatim>\<open>weak_ptr\<close> of either side.
  Copy construction and copy assignment preserve the identity token.
\<close>

theorem copies_compare_equal:
  assumes "copy_of c0 c1" and "copy_of c0 c2"
  shows "identity_m c1 = identity_m c0 \<and> identity_m c2 = identity_m c0
    \<and> connection_eq c1 c2 \<and> \<not> connection_less c1 c2
    \<and> connection_eq (c1\<lparr>slot_m := w1\<rparr>) (c2\<lparr>slot_m := w2\<rparr>)
    \<and> connection_eq a b = (identity_m a = identity_m b)
    \<and> connection_less a b = (identity_m a < identity_m b)
    \<and> identity_m (connection_copy a) = identity_m a
    \<and> identity_m (connection_assign b a) = identity_m a"
  using copy_of_same [OF assms(1)] copy_of_same [OF assms(2)]
  by (simp add: connection_eq_def connection_less_def connection_copy_def connection_assign_def)

theorem copies_compare_equal_witness:
  "connection_eq (connection_copy \<lparr>slot_m = Some 1, identity_m = 7\<rparr>)
     (connection_assign (connection_default 9)
        (connection_copy \<lparr>slot_m = Some 1, identity_m = 7\<rparr>))
   \<and> identity_m (connection_assign (connection_default 9)
        (connection_copy \<lparr>slot_m = Some 1, identity_m = 7\<rparr>)) = 7"
proof -
  let ?c0 = "\<lparr>slot_m = Some 1, identity_m = 7\<rparr>"
  have 1: "copy_of ?c0 (connection_copy ?c0)"
    by (rule copy_of_copy) (rule copy_of_origin)
  have 2: "copy_of ?c0 (connection_assign (connection_default 9) (connection_copy ?c0))"
    by (rule copy_of_assign) (rule 1)
  show ?thesis using copies_compare_equal [OF 1 2] by simp
qed

text \<open>
  Claim C9. \<^verbatim>\<open>a.swap(b)\<close> exchanges the pairs (weak body reference, identity): afterwards \<open>a\<close>
  holds what \<open>b\<close> held and \<open>b\<close> holds what \<open>a\<close> held. Swapping twice restores both, and
  after the swap \<open>a\<close> compares equal to a copy made of \<open>b\<close> before it (and \<open>b\<close> to a copy
  of \<open>a\<close>).
\<close>

theorem connection_swap_exchanges:
  "connection_swap a b = (b, a)
   \<and> slot_m (fst (connection_swap a b)) = slot_m b
   \<and> identity_m (fst (connection_swap a b)) = identity_m b
   \<and> slot_m (snd (connection_swap a b)) = slot_m a
   \<and> identity_m (snd (connection_swap a b)) = identity_m a
   \<and> (case connection_swap a b of (a', b') \<Rightarrow> connection_swap a' b') = (a, b)
   \<and> connection_eq (fst (connection_swap a b)) (connection_copy b)
   \<and> connection_eq (snd (connection_swap a b)) (connection_copy a)"
  by (simp add: connection_swap_def connection_eq_def connection_copy_def)

theorem connection_swap_exchanges_witness:
  "connection_swap \<lparr>slot_m = Some 1, identity_m = 7\<rparr> \<lparr>slot_m = None, identity_m = 9\<rparr>
     = (\<lparr>slot_m = None, identity_m = 9\<rparr>, \<lparr>slot_m = Some 1, identity_m = 7\<rparr>)"
  using connection_swap_exchanges
    [of "\<lparr>slot_m = Some 1, identity_m = 7\<rparr>" "\<lparr>slot_m = None, identity_m = 9\<rparr>"]
  by simp

subsection \<open>The predicates of the invocation loop\<close>

text \<open>
  Claim C3. \<^verbatim>\<open>is_disconnected\<close> is true of a pair exactly when \<^verbatim>\<open>connected()\<close> of its
  connection is false, and \<^verbatim>\<open>is_callable\<close> exactly when \<^verbatim>\<open>connected()\<close> is true and
  \<^verbatim>\<open>blocked()\<close> is false. Both return a truth value and no state: they change nothing. For a
  pair whose connection is connected and blocked, \<^verbatim>\<open>is_callable\<close> and \<^verbatim>\<open>is_disconnected\<close>
  are both false.
\<close>

theorem predicates_follow_connection:
  "is_disconnected p s = (\<not> connection_connected (first p) s)
   \<and> is_callable p s = (connection_connected (first p) s \<and> \<not> connection_blocked (first p) s)
   \<and> (connection_connected (first p) s \<and> connection_blocked (first p) s
        \<longrightarrow> \<not> is_callable p s \<and> \<not> is_disconnected p s)"
  by (simp add: is_disconnected_def is_callable_def)

theorem predicates_follow_connection_witness:
  "connection_connected \<lparr>slot_m = Some 1, identity_m = 7\<rparr>
     \<lparr>bodies = [1 \<mapsto> \<lparr>signal = 3, signal_data = 4, signal_disconnect = 5, blocked_m = True,
        bound_objects = []\<rparr>], calls = []\<rparr>
   \<and> connection_blocked \<lparr>slot_m = Some 1, identity_m = 7\<rparr>
     \<lparr>bodies = [1 \<mapsto> \<lparr>signal = 3, signal_data = 4, signal_disconnect = 5, blocked_m = True,
        bound_objects = []\<rparr>], calls = []\<rparr>
   \<and> \<not> is_callable \<lparr>first = \<lparr>slot_m = Some 1, identity_m = 7\<rparr>, second = ()\<rparr>
     \<lparr>bodies = [1 \<mapsto> \<lparr>signal = 3, signal_data = 4, signal_disconnect = 5, blocked_m = True,
        bound_objects = []\<rparr>], calls = []\<rparr>
   \<and> \<not> is_disconnected \<lparr>first = \<lparr>slot_m = Some 1, identity_m = 7\<rparr>, second = ()\<rparr>
     \<lparr>bodies = [1 \<mapsto> \<lparr>signal = 3, signal_data = 4, signal_disconnect = 5, blocked_m = True,
        bound_objects = []\<rparr>], calls = []\<rparr>"
  using predicates_follow_connection
    [of "\<lparr>first = \<lparr>slot_m = Some 1, identity_m = 7\<rparr>, second = ()\<rparr>"
     "\<lparr>bodies = [1 \<mapsto> \<lparr>signal = 3, signal_data = 4, signal_disconnect = 5, blocked_m = True,
        bound_objects = []\<rparr>], calls = []\<rparr>"]
  by (simp add: connection_connected_def connection_blocked_def lock_def)

subsection \<open>The guard of a bound object\<close>

lemma release_times_released:
  "release_times n (g\<lparr>auto_disconnect := False\<rparr>) cs = (g\<lparr>auto_disconnect := False\<rparr>, cs)"
  by (induction n) (simp_all add: release_def)

lemma release_times_pos:
  "0 < n \<Longrightarrow> release_times n g cs = (g\<lparr>auto_disconnect := False\<rparr>, cs)"
  by (cases n) (simp_all add: release_def release_times_released)

text \<open>
  Claim C4. Constructing a guard for a bound object \<open>b\<close> makes no call. When \<^verbatim>\<open>release()\<close>
  has been called at least once, destroying the guard makes no call. When \<^verbatim>\<open>release()\<close> has
  never been called, destroying the guard makes exactly one call: \<open>b\<close>'s disconnect callback,
  with \<open>b\<close>'s object and data pointers as arguments.
\<close>

theorem guard_disconnects_unless_released:
  "snd (auto_disconnect_bound_object_ctor b cs) = cs
   \<and> (0 < n \<longrightarrow> guard_scope b n cs = cs)
   \<and> guard_scope b 0 cs = cs @ [Call (disconnect b) (obj b) (data b)]"
  by (simp add: guard_scope_def auto_disconnect_bound_object_ctor_def
      auto_disconnect_bound_object_dtor_def release_times_pos)

theorem guard_disconnects_unless_released_witness:
  "guard_scope \<lparr>obj = 4, data = 8, disconnect = 1\<rparr> 2 [] = []
   \<and> guard_scope \<lparr>obj = 4, data = 8, disconnect = 1\<rparr> 0 [] = [Call 1 4 8]"
  using guard_disconnects_unless_released [of "\<lparr>obj = 4, data = 8, disconnect = 1\<rparr>" "[]" 2]
  by simp

subsection \<open>Default construction\<close>

lemmas handle_defs = lock_def connection_connected_def connection_blocked_def
  connection_block_def connection_unblock_def connection_disconnect_def




subsection \<open>Blocking\<close>

text \<open>
  Claim C6. For a connection whose body is alive, \<^verbatim>\<open>blocked()\<close> is true after
  \<^verbatim>\<open>block(true)\<close> and false after \<^verbatim>\<open>unblock()\<close>. None of \<^verbatim>\<open>block(true)\<close>, \<^verbatim>\<open>block(false)\<close>
  and \<^verbatim>\<open>unblock()\<close> changes \<^verbatim>\<open>connected()\<close>, whether the body is alive or not.
\<close>

theorem block_toggles_blocked_only:
  "(connection_connected c s \<longrightarrow>
      connection_blocked c (connection_block c True s)
      \<and> \<not> connection_blocked c (connection_unblock c s))
   \<and> connection_connected c (connection_block c True s) = connection_connected c s
   \<and> connection_connected c (connection_block c False s) = connection_connected c s
   \<and> connection_connected c (connection_unblock c s) = connection_connected c s"
  by (simp add: handle_defs split: option.splits)

theorem block_toggles_blocked_only_witness:
  "connection_connected \<lparr>slot_m = Some 1, identity_m = 7\<rparr>
     \<lparr>bodies = [1 \<mapsto> \<lparr>signal = 3, signal_data = 4, signal_disconnect = 5, blocked_m = False,
        bound_objects = []\<rparr>], calls = []\<rparr>
   \<and> connection_blocked \<lparr>slot_m = Some 1, identity_m = 7\<rparr>
       (connection_block \<lparr>slot_m = Some 1, identity_m = 7\<rparr> True
         \<lparr>bodies = [1 \<mapsto> \<lparr>signal = 3, signal_data = 4, signal_disconnect = 5, blocked_m = False,
            bound_objects = []\<rparr>], calls = []\<rparr>)
   \<and> \<not> connection_blocked \<lparr>slot_m = Some 1, identity_m = 7\<rparr>
       (connection_unblock \<lparr>slot_m = Some 1, identity_m = 7\<rparr>
         \<lparr>bodies = [1 \<mapsto> \<lparr>signal = 3, signal_data = 4, signal_disconnect = 5, blocked_m = False,
            bound_objects = []\<rparr>], calls = []\<rparr>)"
proof -
  let ?c = "\<lparr>slot_m = Some 1, identity_m = 7\<rparr>"
  let ?s = "\<lparr>bodies = [1 \<mapsto> \<lparr>signal = 3, signal_data = 4, signal_disconnect = 5,
                blocked_m = False, bound_objects = []\<rparr>], calls = []\<rparr>"
  have h: "connection_connected ?c ?s"
    by (simp add: connection_connected_def lock_def)
  show ?thesis using h block_toggles_blocked_only [of ?c ?s] by simp
qed

subsection \<open>Disconnecting\<close>

lemma apply_op_dead:
  assumes "bodies s r = None"
  shows "bodies (apply_op x s) r = None"
proof (cases x)
  case (Pair c h)
  with assms show ?thesis
    by (cases h)
      (auto simp: connection_block_def connection_unblock_def connection_disconnect_def
        split: option.splits)
qed

lemma run_ops_dead: "bodies s r = None \<Longrightarrow> bodies (run_ops ops s) r = None"
  by (induction ops arbitrary: s) (simp_all add: apply_op_dead)

lemma apply_op_gone:
  "lock c s = None \<Longrightarrow> slot_m d = slot_m c \<Longrightarrow> apply_op (d, x) s = s"
  by (cases x)
    (auto simp: lock_def connection_block_def connection_unblock_def connection_disconnect_def
      split: option.splits)

lemma run_ops_gone:
  "lock c s = None \<Longrightarrow> \<forall>(d, x) \<in> set ops. slot_m d = slot_m c \<Longrightarrow> run_ops ops s = s"
  by (induction ops) (auto simp: apply_op_gone)

lemma lock_disconnect: "lock c (connection_disconnect c s) = None"
  by (simp add: lock_def connection_disconnect_def split: option.splits)

lemma disconnect_calls_blocked: "disconnect_calls (b\<lparr>blocked_m := x\<rparr>) = disconnect_calls b"
  by (simp add: disconnect_calls_def)

text \<open>
  Whatever is done through the handles of one attachment, starting with its body alive:
  the callbacks are called when the first \<^verbatim>\<open>disconnect()\<close> is reached, and never otherwise.
\<close>

lemma run_ops_calls:
  "bodies s r = Some b \<Longrightarrow> \<forall>(d, x) \<in> set ops. slot_m d = Some r \<Longrightarrow>
   calls (run_ops ops s) =
     calls s @ (if Disconnect \<in> snd ` set ops then disconnect_calls b else [])"
proof (induction ops arbitrary: s b)
  case Nil
  then show ?case by simp
next
  case (Cons a ops)
  obtain d x where a: "a = (d, x)" by (cases a)
  from Cons.prems a have d: "slot_m d = Some r"
    and rest: "\<forall>(d, x) \<in> set ops. slot_m d = Some r"
    by auto
  show ?case
  proof (cases x)
    case (Block sb)
    let ?s = "connection_block d sb s"
    have "bodies ?s r = Some (b\<lparr>blocked_m := sb\<rparr>)" and "calls ?s = calls s"
      using Cons.prems(1) d by (simp_all add: connection_block_def)
    with Cons.IH [OF _ rest, of ?s "b\<lparr>blocked_m := sb\<rparr>"] a Block show ?thesis
      by (simp add: disconnect_calls_blocked)
  next
    case Unblock
    let ?s = "connection_unblock d s"
    have "bodies ?s r = Some (b\<lparr>blocked_m := False\<rparr>)" and "calls ?s = calls s"
      using Cons.prems(1) d by (simp_all add: connection_block_def connection_unblock_def)
    with Cons.IH [OF _ rest, of ?s "b\<lparr>blocked_m := False\<rparr>"] a Unblock show ?thesis
      by (simp add: disconnect_calls_blocked)
  next
    case Disconnect
    let ?s = "connection_disconnect d s"
    have "\<forall>(e, x) \<in> set ops. slot_m e = slot_m d"
      using rest d by auto
    from run_ops_gone [OF lock_disconnect this] have "run_ops ops ?s = ?s" .
    moreover have "calls ?s = calls s @ disconnect_calls b"
      using Cons.prems(1) d by (simp add: connection_disconnect_def)
    ultimately show ?thesis using a Disconnect by simp
  qed
qed

text \<open>
  Claim C1. After \<^verbatim>\<open>c.disconnect()\<close>, \<^verbatim>\<open>c.connected()\<close> is false and stays false whatever is
  done later through any handle. Every later operation through a handle of the same
  attachment, a further \<^verbatim>\<open>disconnect()\<close> on \<open>c\<close> or on a copy of \<open>c\<close> among them, changes
  nothing. Over a whole history of operations through the handles of an attachment whose
  body is alive at the start, the calls made are none when the history has no
  \<^verbatim>\<open>disconnect()\<close>, and otherwise the signal's disconnect callback, once, followed by the
  callbacks of the bound objects, however many times \<^verbatim>\<open>disconnect()\<close> occurs.
\<close>

theorem disconnect_is_final:
  "\<not> connection_connected c (run_ops later (connection_disconnect c s))
   \<and> ((\<forall>(e, x) \<in> set same. slot_m e = slot_m c) \<longrightarrow>
        run_ops same (connection_disconnect c s) = connection_disconnect c s)
   \<and> (slot_m d = slot_m c \<longrightarrow>
        connection_disconnect d (connection_disconnect c s) = connection_disconnect c s)
   \<and> (lock c s = Some b \<and> (\<forall>(e, x) \<in> set history. slot_m e = slot_m c) \<longrightarrow>
        calls (run_ops history s) =
          calls s @
            (if Disconnect \<in> snd ` set history
             then Call (signal_disconnect b) (signal b) (signal_data b)
               # map bound_object_call (bound_objects b)
             else []))"
proof -
  have "lock c (run_ops later (connection_disconnect c s)) = None"
  proof (cases "slot_m c")
    case None
    then show ?thesis by (simp add: lock_def)
  next
    case (Some r)
    have "bodies (connection_disconnect c s) r = None"
      using Some by (simp add: connection_disconnect_def split: option.splits)
    then have "bodies (run_ops later (connection_disconnect c s)) r = None"
      by (rule run_ops_dead)
    with Some show ?thesis by (simp add: lock_def)
  qed
  then have forever: "\<not> connection_connected c (run_ops later (connection_disconnect c s))"
    by (simp add: connection_connected_def)
  have noop: "(\<forall>(d, x) \<in> set same. slot_m d = slot_m c) \<longrightarrow>
      run_ops same (connection_disconnect c s) = connection_disconnect c s"
    using run_ops_gone [OF lock_disconnect] by blast
  have again: "slot_m d = slot_m c \<longrightarrow>
      connection_disconnect d (connection_disconnect c s) = connection_disconnect c s"
    using apply_op_gone [OF lock_disconnect, where d = d and x = Disconnect] by simp
  have once: "calls (run_ops history s) =
      calls s @
        (if Disconnect \<in> snd ` set history
         then Call (signal_disconnect b) (signal b) (signal_data b)
           # map bound_object_call (bound_objects b)
         else [])"
    if alive: "lock c s = Some b" and hist: "\<forall>(d, x) \<in> set history. slot_m d = slot_m c"
  proof -
    from alive obtain r where r: "slot_m c = Some r" and b: "bodies s r = Some b"
      by (auto simp: lock_def split: option.splits)
    from hist r have "\<forall>(d, x) \<in> set history. slot_m d = Some r"
      by simp
    from run_ops_calls [OF b this] show ?thesis
      by (simp add: disconnect_calls_def)
  qed
  from forever noop again once show ?thesis by blast
qed

theorem disconnect_is_final_witness:
  "connection_connected \<lparr>slot_m = Some 1, identity_m = 7\<rparr>
     \<lparr>bodies = [1 \<mapsto> \<lparr>signal = 3, signal_data = 4, signal_disconnect = 5, blocked_m = False,
        bound_objects = [\<lparr>obj = 4, data = 8, disconnect = 6\<rparr>]\<rparr>], calls = []\<rparr>
   \<and> \<not> connection_connected \<lparr>slot_m = Some 1, identity_m = 7\<rparr>
       (run_ops
         [(\<lparr>slot_m = Some 1, identity_m = 7\<rparr>, Block True),
          (connection_copy \<lparr>slot_m = Some 1, identity_m = 7\<rparr>, Disconnect),
          (\<lparr>slot_m = Some 1, identity_m = 7\<rparr>, Unblock)]
         (connection_disconnect \<lparr>slot_m = Some 1, identity_m = 7\<rparr>
           \<lparr>bodies = [1 \<mapsto> \<lparr>signal = 3, signal_data = 4, signal_disconnect = 5,
              blocked_m = False, bound_objects = [\<lparr>obj = 4, data = 8, disconnect = 6\<rparr>]\<rparr>],
            calls = []\<rparr>))
   \<and> calls
       (run_ops
         [(\<lparr>slot_m = Some 1, identity_m = 7\<rparr>, Block True),
          (\<lparr>slot_m = Some 1, identity_m = 7\<rparr>, Disconnect),
          (connection_copy \<lparr>slot_m = Some 1, identity_m = 7\<rparr>, Disconnect)]
         \<lparr>bodies = [1 \<mapsto> \<lparr>signal = 3, signal_data = 4, signal_disconnect = 5,
            blocked_m = False, bound_objects = [\<lparr>obj = 4, data = 8, disconnect = 6\<rparr>]\<rparr>],
          calls = []\<rparr>)
     = [Call 5 3 4, Call 6 4 8]"
proof -
  let ?c = "\<lparr>slot_m = Some 1, identity_m = 7\<rparr>"
  let ?b = "\<lparr>signal = 3, signal_data = 4, signal_disconnect = 5, blocked_m = False,
             bound_objects = [\<lparr>obj = 4, data = 8, disconnect = 6\<rparr>]\<rparr>"
  let ?s = "\<lparr>bodies = [1 \<mapsto> ?b], calls = []\<rparr>"
  let ?later = "[(?c, Block True), (connection_copy ?c, Disconnect), (?c, Unblock)]"
  let ?history = "[(?c, Block True), (?c, Disconnect), (connection_copy ?c, Disconnect)]"
  have alive: "lock ?c ?s = Some ?b"
    by (simp add: lock_def)
  have connected: "connection_connected ?c ?s"
    by (simp add: connection_connected_def lock_def)
  have hist: "\<forall>(e, x) \<in> set ?history. slot_m e = slot_m ?c"
    by (simp add: connection_copy_def)
  have mem: "Disconnect \<in> snd ` set ?history"
    by simp
  from disconnect_is_final
    [where c = ?c and s = ?s and later = ?later and b = ?b and history = ?history]
  have "\<not> connection_connected ?c (run_ops ?later (connection_disconnect ?c ?s))"
    and "calls (run_ops ?history ?s) =
      calls ?s @ Call (signal_disconnect ?b) (signal ?b) (signal_data ?b)
        # map bound_object_call (bound_objects ?b)"
    using alive hist mem by (blast, presburger)
  with connected show ?thesis
    by (simp add: bound_object_call_def)
qed

end
